theory Spec2Isabelle
  imports Main
begin

section \<open>Data model\<close>

text \<open>
  The user document of \<^verbatim>\<open>models/UserModel.js\<close>. Every schema path is a field; \<open>uid\<close> is
  the \<^verbatim>\<open>_id\<close> that MongoDB gives each document. Timestamps are milliseconds since the
  epoch (\<^verbatim>\<open>Date.now()\<close>), so they are integers.
\<close>

record user =
  uid :: nat
  email :: string
  name :: string
  password :: string
  verifyToken :: string
  verifyTokenExpireAt :: int
  isAccountVerified :: bool
  resetToken :: string
  resetTokenExpireAt :: int

text \<open>
  \<^verbatim>\<open>new UserModel({email, name})\<close>: the paths that are not given take the defaults of the
  schema (empty strings, \<open>0\<close>, \<open>false\<close>).
\<close>

definition new_UserModel :: "nat \<Rightarrow> string \<Rightarrow> string \<Rightarrow> user" where
  "new_UserModel i e n =
     \<lparr>uid = i, email = e, name = n, password = [], verifyToken = [],
      verifyTokenExpireAt = 0, isAccountVerified = False, resetToken = [],
      resetTokenExpireAt = 0\<rparr>"

text \<open>
  A field of a request body is a string or is absent (\<^verbatim>\<open>undefined\<close>). \<open>falsy\<close> is the
  test \<^verbatim>\<open>!x\<close> of the controllers: absent and the empty string are both falsy. On strings
  \<^verbatim>\<open>==\<close> and \<^verbatim>\<open>===\<close> are the same comparison, HOL's equality.

  \<^verbatim>\<open>req.body\<close> is the parsed JSON object, a map from field names to strings, or is
  \<^verbatim>\<open>undefined\<close> when the request came without a body (Express 5 leaves it unset).
\<close>

type_synonym body = "string \<rightharpoonup> string"

fun falsy :: "string option \<Rightarrow> bool" where
  "falsy None = True"
| "falsy (Some s) = (s = [])"

fun val :: "string option \<Rightarrow> string" where
  "val None = []"
| "val (Some s) = s"

datatype error =
  ValidationError string
  | DuplicateKey string
  | UpstreamError string
  | JsonWebTokenError string
  | TokenExpiredError
  | TypeError string
  | JsError string

fun error_message :: "error \<Rightarrow> string" where
  "error_message (ValidationError p) = ''user validation failed: Path '' @ p @ '' is required.''"
| "error_message (DuplicateKey p) = ''E11000 duplicate key error: '' @ p"
| "error_message (UpstreamError m) = m"
| "error_message (JsonWebTokenError m) = m"
| "error_message TokenExpiredError = ''jwt expired''"
| "error_message (TypeError m) = m"
| "error_message (JsError m) = m"

subsection \<open>The user collection\<close>

text \<open>
  The collection is the list of its documents. \<open>findOne\<close> is \<^verbatim>\<open>UserModel.findOne({email})\<close>:
  the first document with that email, and none when the key is \<^verbatim>\<open>undefined\<close> (every
  document has an email, the path is required). The connection to the database is up:
  a read or a write fails only by validation or by the unique index.
\<close>

fun findOne :: "user list \<Rightarrow> string option \<Rightarrow> user option" where
  "findOne st None = None"
| "findOne st (Some e) = find (\<lambda>d. email d = e) st"

text \<open>\<^verbatim>\<open>updateOne(filter, update)\<close> changes the first document that matches, if any.\<close>

fun updateOne :: "(user \<Rightarrow> bool) \<Rightarrow> (user \<Rightarrow> user) \<Rightarrow> user list \<Rightarrow> user list" where
  "updateOne P f [] = []"
| "updateOne P f (d # ds) = (if P d then f d # ds else d # updateOne P f ds)"

text \<open>\<^verbatim>\<open>user.save()\<close> on a document that was read from the collection writes it back under its \<^verbatim>\<open>_id\<close>.\<close>

definition save :: "user \<Rightarrow> user list \<Rightarrow> user list" where
  "save u st = updateOne (\<lambda>d. uid d = uid u) (\<lambda>d. u) st"

text \<open>A new document gets an \<^verbatim>\<open>_id\<close> that no document of the collection has.\<close>

definition new_ObjectId :: "user list \<Rightarrow> nat" where
  "new_ObjectId st = Suc (fold max (map uid st) 0)"

text \<open>
  \<^verbatim>\<open>user.save()\<close> on a new document: the schema validates the required paths (an empty
  string does not satisfy \<^verbatim>\<open>required\<close>), then the unique index on \<^verbatim>\<open>email\<close> rejects a
  duplicate; otherwise the document is added.
\<close>

definition save_new :: "user \<Rightarrow> user list \<Rightarrow> error + user list" where
  "save_new u st =
     (if email u = [] then Inl (ValidationError ''email'')
      else if name u = [] then Inl (ValidationError ''name'')
      else if find (\<lambda>d. email d = email u) st \<noteq> None then Inl (DuplicateKey ''email'')
      else Inr (st @ [u]))"

subsection \<open>Session tokens\<close>

text \<open>
  \<^verbatim>\<open>jwt.sign(payload, process.env.JWT_SECRET, {expiresIn: '7d'})\<close>. The payload is
  \<^verbatim>\<open>{id: user._id}\<close> in \<^verbatim>\<open>controllers/Auth.js\<close> and \<^verbatim>\<open>{email, name}\<close> in the OAuth
  controller. The signature is modelled by the key it was made with; \<open>iat\<close> and \<open>exp\<close>
  are in seconds. The secret is an environment variable: it can be unset or empty, and
  then \<^verbatim>\<open>jwt.sign\<close> throws.
\<close>

datatype payload = IdClaim nat | ProfileClaim "string option" "string option"

datatype token = Signed payload int int string | Opaque string

definition jwt_sign :: "payload \<Rightarrow> string option \<Rightarrow> int \<Rightarrow> error + token" where
  "jwt_sign p secret now =
     (if falsy secret then Inl (JsError ''secretOrPrivateKey must have a value'')
      else Inr (Signed p (now div 1000) (now div 1000 + 7 * 24 * 60 * 60) (val secret)))"

text \<open>
  \<^verbatim>\<open>jwt.verify(token, process.env.JWT_SECRET)\<close>, in the order of the library. A cookie
  value that is not a signed token is \<open>Opaque\<close>: it is malformed unless it has three
  parts between dots, and then it does not decode. A signed token needs a secret, the
  right signature, and an expiry that the clock has not reached.
\<close>

definition jwt_parts :: "string \<Rightarrow> nat" where
  "jwt_parts s = Suc (length (filter (\<lambda>c. c = CHR ''.'') s))"

fun jwt_verify :: "token \<Rightarrow> string option \<Rightarrow> int \<Rightarrow> error + payload" where
  "jwt_verify (Opaque s) secret now =
     (if jwt_parts s \<noteq> 3 then Inl (JsonWebTokenError ''jwt malformed'')
      else Inl (JsonWebTokenError ''invalid token''))"
| "jwt_verify (Signed p iat exp k) secret now =
     (if falsy secret then Inl (JsonWebTokenError ''secret or public key must be provided'')
      else if k \<noteq> val secret then Inl (JsonWebTokenError ''invalid signature'')
      else if now div 1000 \<ge> exp then Inl TokenExpiredError
      else Inr p)"

text \<open>\<^verbatim>\<open>tokenDecode.id\<close>: present in an id payload only.\<close>

fun claim_id :: "payload \<Rightarrow> nat option" where
  "claim_id (IdClaim i) = Some i"
| "claim_id (ProfileClaim e n) = None"

subsection \<open>Responses\<close>

record cookie_opts =
  httpOnly :: bool
  secure :: bool
  sameSite :: string
  maxAge :: "int option"

datatype cookie = SetCookie token cookie_opts | ClearCookie cookie_opts

record response =
  success :: bool
  message :: "string option"
  cookie :: "cookie option"

text \<open>
  What a handler does with a request: it sends a JSON body, it redirects to a URL with
  query parameters, or its promise rejects with an error that the handler does not catch.
  In the last case the controller sends nothing; Express answers with its own error
  handler.
\<close>

datatype outcome = Reply response | Redirect string "(string \<times> string) list" | Unhandled error

record mail =
  mail_to :: string
  subject :: string
  url :: string

record result =
  outcome :: outcome
  db :: "user list"
  outbox :: "mail list"

definition fail :: "user list \<Rightarrow> string \<Rightarrow> result" where
  "fail st m = \<lparr>outcome = Reply \<lparr>success = False, message = Some m, cookie = None\<rparr>,
                db = st, outbox = []\<rparr>"

definition session_cookie :: "token \<Rightarrow> cookie" where
  "session_cookie t =
     SetCookie t \<lparr>httpOnly = True, secure = True, sameSite = ''None'',
                 maxAge = Some (7 * 24 * 60 * 60 * 1000)\<rparr>"

text \<open>
  What a handler reads from outside the request: the clock, the random UUID, the
  environment variables (each can be unset), the hashing library, whether the mail
  transport accepts a message, and the two calls to the identity provider (each gives an
  error when the HTTP call fails).
\<close>

record profile =
  p_email :: "string option"
  p_name :: "string option"

record env =
  Date_now :: int
  randomUUID :: string
  JWT_SECRET :: "string option"
  GOOGLE_CLIENT_ID :: "string option"
  GOOGLE_REDIRECT_URI :: "string option"
  bcrypt_hash :: "string \<Rightarrow> string"
  bcrypt_compare :: "string \<Rightarrow> string \<Rightarrow> bool"
  sendMail_ok :: bool
  google_token :: "string option \<Rightarrow> error + string option"
  google_userinfo :: "string option \<Rightarrow> error + profile"

definition sendMail :: "env \<Rightarrow> mail \<Rightarrow> mail list" where
  "sendMail ev m = (if sendMail_ok ev then [m] else [])"

definition crash :: "user list \<Rightarrow> error \<Rightarrow> result" where
  "crash st err = \<lparr>outcome = Unhandled err, db = st, outbox = []\<rparr>"

section \<open>The controllers of \<^verbatim>\<open>controllers/Auth.js\<close>\<close>

text \<open>
  Each controller takes the environment, the collection and \<^verbatim>\<open>req.body\<close>, and gives
  its response, the collection afterwards and the mail it sent. The first line of a
  controller takes the fields out of \<^verbatim>\<open>req.body\<close>, before the \<^verbatim>\<open>try\<close>: without a
  body this is a \<^verbatim>\<open>TypeError\<close> that the controller does not catch. The checks come in
  the order of the source. An error thrown inside the \<^verbatim>\<open>try\<close> is answered by the
  \<^verbatim>\<open>catch\<close> with \<^verbatim>\<open>success: false\<close> and the message of the error; what was written
  before stays written. The mail carries the link of the source; a transport that fails
  is caught and changes nothing else.
\<close>

definition no_body :: "string \<Rightarrow> error" where
  "no_body k = TypeError (''Cannot destructure property '' @ k @ '' of req.body as it is undefined.'')"

definition register :: "env \<Rightarrow> user list \<Rightarrow> body option \<Rightarrow> result" where
  "register ev st req_body =
     (case req_body of
        None \<Rightarrow> crash st (no_body ''name'')
      | Some b \<Rightarrow>
          (let n = b ''name''; e = b ''email''; p = b ''password'' in
           if falsy n \<or> falsy e \<or> falsy p then fail st ''Missing Details''
           else case findOne st e of
             Some existingUser \<Rightarrow> fail st ''User already exists''
           | None \<Rightarrow>
               (let hashedPass = bcrypt_hash ev (val p);
                    tok = randomUUID ev;
                    u = (new_UserModel (new_ObjectId st) (val e) (val n))
                          \<lparr>password := hashedPass, verifyToken := tok,
                           verifyTokenExpireAt := Date_now ev + 1000 * 60 * 15\<rparr>;
                    verifyUrl = ''http://localhost:5173/verifyAccount?token='' @ tok
                                  @ ''&email='' @ val e
                in case save_new u st of
                     Inl err \<Rightarrow> fail st (error_message err)
                   | Inr st' \<Rightarrow>
                       \<lparr>outcome = Reply \<lparr>success = True, message = None, cookie = None\<rparr>,
                        db = st',
                        outbox = sendMail ev \<lparr>mail_to = val e,
                                              subject = ''Welcome to this website'',
                                              url = verifyUrl\<rparr>\<rparr>)))"

definition verifyAccount :: "env \<Rightarrow> user list \<Rightarrow> body option \<Rightarrow> result" where
  "verifyAccount ev st req_body =
     (case req_body of
        None \<Rightarrow> crash st (no_body ''token'')
      | Some b \<Rightarrow>
          (let t = b ''token''; e = b ''email'' in
           if falsy t \<or> falsy e then fail st ''Missing details''
           else case findOne st e of
             None \<Rightarrow> fail st ''User not found''
           | Some u \<Rightarrow>
               (let matched = (verifyToken u = val t) in
                if \<not> matched then fail st ''Link in not valid''
                else if verifyTokenExpireAt u < Date_now ev then fail st ''Link is Expired''
                else
                  (let st' = updateOne (\<lambda>d. email d = val e)
                               (\<lambda>d. d\<lparr>isAccountVerified := True, verifyToken := [],
                                      verifyTokenExpireAt := 0\<rparr>) st
                   in case jwt_sign (IdClaim (uid u)) (JWT_SECRET ev) (Date_now ev) of
                        Inl err \<Rightarrow> fail st' (error_message err)
                      | Inr jwttoken \<Rightarrow>
                          \<lparr>outcome = Reply \<lparr>success = True, message = Some ''Account verified'',
                                             cookie = Some (session_cookie jwttoken)\<rparr>,
                           db = st', outbox = []\<rparr>))))"

definition Signin :: "env \<Rightarrow> user list \<Rightarrow> body option \<Rightarrow> result" where
  "Signin ev st req_body =
     (case req_body of
        None \<Rightarrow> crash st (no_body ''email'')
      | Some b \<Rightarrow>
          (let e = b ''email''; p = b ''password'' in
           if falsy e \<or> falsy p then fail st ''Email and password are required''
           else case findOne st e of
             None \<Rightarrow> fail st ''Invalid email''
           | Some u \<Rightarrow>
               (let isMatch = bcrypt_compare ev (val p) (password u) in
                if \<not> isMatch then fail st ''Incorrect password''
                else case jwt_sign (IdClaim (uid u)) (JWT_SECRET ev) (Date_now ev) of
                       Inl err \<Rightarrow> fail st (error_message err)
                     | Inr tok \<Rightarrow>
                         \<lparr>outcome = Reply \<lparr>success = True, message = None,
                                            cookie = Some (session_cookie tok)\<rparr>,
                          db = st, outbox = []\<rparr>)))"

definition Logout :: "env \<Rightarrow> user list \<Rightarrow> result" where
  "Logout ev st =
     \<lparr>outcome = Reply \<lparr>success = True, message = Some ''Logged out'',
                       cookie = Some (ClearCookie \<lparr>httpOnly = True, secure = True,
                                                   sameSite = ''None'', maxAge = None\<rparr>)\<rparr>,
      db = st, outbox = []\<rparr>"

definition isAuthenticated :: "env \<Rightarrow> user list \<Rightarrow> result" where
  "isAuthenticated ev st =
     \<lparr>outcome = Reply \<lparr>success = True, message = None, cookie = None\<rparr>, db = st, outbox = []\<rparr>"

definition sendResetToken :: "env \<Rightarrow> user list \<Rightarrow> body option \<Rightarrow> result" where
  "sendResetToken ev st req_body =
     (case req_body of
        None \<Rightarrow> crash st (no_body ''email'')
      | Some b \<Rightarrow>
          (let e = b ''email'' in
           if falsy e then fail st ''Email required''
           else case findOne st e of
             None \<Rightarrow> fail st ''User not found''
           | Some u \<Rightarrow>
               (let tok = randomUUID ev;
                    st' = updateOne (\<lambda>d. email d = val e)
                            (\<lambda>d. d\<lparr>resetToken := tok,
                                   resetTokenExpireAt := Date_now ev + 1000 * 60 * 15\<rparr>) st;
                    verifyUrl = ''http://localhost:5173/verifyReset?token='' @ tok
                                  @ ''&email='' @ val e
                in \<lparr>outcome = Reply \<lparr>success = True,
                                      message = Some ''Reset link sent to email'',
                                      cookie = None\<rparr>,
                    db = st',
                    outbox = sendMail ev \<lparr>mail_to = val e, subject = ''Password Rest Link'',
                                          url = verifyUrl\<rparr>\<rparr>)))"

definition verifyResetToken :: "env \<Rightarrow> user list \<Rightarrow> body option \<Rightarrow> result" where
  "verifyResetToken ev st req_body =
     (case req_body of
        None \<Rightarrow> crash st (no_body ''email'')
      | Some b \<Rightarrow>
          (let e = b ''email''; t = b ''resetToken'' in
           if falsy e \<or> falsy t then fail st ''Missing Details.''
           else case findOne st e of
             None \<Rightarrow> fail st ''User not found.''
           | Some u \<Rightarrow>
               (if resetToken u = [] \<or> resetToken u \<noteq> val t then fail st ''Invalid Link.''
                else if resetTokenExpireAt u < Date_now ev then fail st ''Link expired''
                else
                  \<lparr>outcome = Reply \<lparr>success = True, message = Some ''Enter new password'',
                                     cookie = None\<rparr>,
                   db = save (u\<lparr>resetToken := [], resetTokenExpireAt := 0\<rparr>) st,
                   outbox = []\<rparr>)))"

definition resetPassword :: "env \<Rightarrow> user list \<Rightarrow> body option \<Rightarrow> result" where
  "resetPassword ev st req_body =
     (case req_body of
        None \<Rightarrow> crash st (no_body ''email'')
      | Some b \<Rightarrow>
          (let e = b ''email''; newPassword = b ''newPassword'' in
           if falsy newPassword then fail st ''New password is required.''
           else case findOne st e of
             None \<Rightarrow> fail st ''User not found.''
           | Some u \<Rightarrow>
               (let hashedPass = bcrypt_hash ev (val newPassword)
                in \<lparr>outcome = Reply \<lparr>success = True,
                                      message = Some ''Password has been reset successfully.'',
                                      cookie = None\<rparr>,
                    db = save (u\<lparr>password := hashedPass\<rparr>) st,
                    outbox = []\<rparr>)))"

section \<open>The session middleware \<^verbatim>\<open>middlewares/userAuth.js\<close>\<close>

text \<open>
  The middleware reads the cookie \<^verbatim>\<open>token\<close>. It either answers itself or calls
  \<^verbatim>\<open>next()\<close> after it has put the user id into \<^verbatim>\<open>req.body\<close>. That assignment is
  inside the \<^verbatim>\<open>try\<close>: without a body it throws and the \<^verbatim>\<open>catch\<close> answers.
\<close>

datatype gate = Denied response | Next nat

fun no_token :: "token option \<Rightarrow> bool" where
  "no_token None = True"
| "no_token (Some (Opaque s)) = (s = [])"
| "no_token (Some (Signed p i x k)) = False"

definition denied :: "string \<Rightarrow> gate" where
  "denied m = Denied \<lparr>success = False, message = Some m, cookie = None\<rparr>"

definition userAuth :: "env \<Rightarrow> token option \<Rightarrow> body option \<Rightarrow> gate" where
  "userAuth ev c req_body =
     (if no_token c then denied ''Not Authorized Login Again.''
      else case c of
        None \<Rightarrow> denied ''Not Authorized Login Again.''
      | Some t \<Rightarrow>
          (case jwt_verify t (JWT_SECRET ev) (Date_now ev) of
             Inl err \<Rightarrow> denied (error_message err)
           | Inr tokenDecode \<Rightarrow>
               (case claim_id tokenDecode of
                  Some i \<Rightarrow>
                    (case req_body of
                       None \<Rightarrow> denied (error_message
                                 (TypeError ''Cannot set properties of undefined (setting userId)''))
                     | Some b \<Rightarrow> Next i)
                | None \<Rightarrow> denied ''Not Authorized Login Again.'')))"

section \<open>The Google controllers \<^verbatim>\<open>controllers/oAuthController.js\<close>\<close>

text \<open>
  \<open>googleLogin\<close> redirects to Google with the four parameters of the source; an unset
  environment variable is sent as the text \<^verbatim>\<open>undefined\<close>. \<open>googleVerifyToken\<close> is the
  callback (exported as \<^verbatim>\<open>verifyToken\<close>, imported by the router under this name). It
  has no \<^verbatim>\<open>try\<close>/\<^verbatim>\<open>catch\<close>: an error of \<^verbatim>\<open>axios\<close>, of \<^verbatim>\<open>jwt.sign\<close> or of
  \<^verbatim>\<open>save()\<close> leaves the handler as a rejected promise. The token is signed before the
  branch on the user, so before anything is saved.
\<close>

fun env_text :: "string option \<Rightarrow> string" where
  "env_text None = ''undefined''"
| "env_text (Some s) = s"

definition googleLogin :: "env \<Rightarrow> user list \<Rightarrow> result" where
  "googleLogin ev st =
     \<lparr>outcome = Redirect ''https://accounts.google.com/o/oauth2/v2/auth''
                  [(''client_id'', env_text (GOOGLE_CLIENT_ID ev)),
                   (''redirect_uri'', env_text (GOOGLE_REDIRECT_URI ev)),
                   (''response_type'', ''code''),
                   (''scope'', ''email profile'')],
      db = st, outbox = []\<rparr>"

definition googleVerifyToken :: "env \<Rightarrow> user list \<Rightarrow> string option \<Rightarrow> result" where
  "googleVerifyToken ev st code =
     (case google_token ev code of
        Inl err \<Rightarrow> crash st err
      | Inr access_token \<Rightarrow>
          (case google_userinfo ev access_token of
             Inl err \<Rightarrow> crash st err
           | Inr userData \<Rightarrow>
               (let e = p_email userData; n = p_name userData;
                    u = findOne st e
                in case jwt_sign (ProfileClaim e n) (JWT_SECRET ev) (Date_now ev) of
                     Inl err \<Rightarrow> crash st err
                   | Inr tok \<Rightarrow>
                       (case u of
                          None \<Rightarrow>
                            (let newUser = (new_UserModel (new_ObjectId st) (val e) (val n))
                                             \<lparr>isAccountVerified := True\<rparr>
                             in case save_new newUser st of
                                  Inl err \<Rightarrow> crash st err
                                | Inr st' \<Rightarrow>
                                    \<lparr>outcome = Reply \<lparr>success = True,
                                         message = Some ''User registered successfully'',
                                         cookie = Some (session_cookie tok)\<rparr>,
                                     db = st', outbox = []\<rparr>)
                        | Some existing \<Rightarrow>
                            \<lparr>outcome = Reply \<lparr>success = True,
                                 message = Some ''User logged in successfully'',
                                 cookie = Some (session_cookie tok)\<rparr>,
                             db = st, outbox = []\<rparr>))))"

section \<open>The router \<^verbatim>\<open>routes/authRoutes.js\<close>\<close>

text \<open>
  A request is its route with what the handlers of that route read: the body, and for
  \<^verbatim>\<open>/is-auth\<close> the cookie, for the callback the query parameter \<^verbatim>\<open>code\<close>.
\<close>

datatype request =
  PostRegister "body option"
  | PostAccountVerify "body option"
  | PostSingin "body option"
  | PostLogout
  | PostIsAuth "token option" "body option"
  | PostSendResetToken "body option"
  | PostVerifyResetToken "body option"
  | PostResetPassword "body option"
  | PostGoogleLogin
  | PostGoogleCallback "string option"

fun authRouter :: "env \<Rightarrow> user list \<Rightarrow> request \<Rightarrow> result" where
  "authRouter ev st (PostRegister b) = register ev st b"
| "authRouter ev st (PostAccountVerify b) = verifyAccount ev st b"
| "authRouter ev st (PostSingin b) = Signin ev st b"
| "authRouter ev st PostLogout = Logout ev st"
| "authRouter ev st (PostIsAuth c b) =
     (case userAuth ev c b of
        Denied r \<Rightarrow> \<lparr>outcome = Reply r, db = st, outbox = []\<rparr>
      | Next i \<Rightarrow> isAuthenticated ev st)"
| "authRouter ev st (PostSendResetToken b) = sendResetToken ev st b"
| "authRouter ev st (PostVerifyResetToken b) = verifyResetToken ev st b"
| "authRouter ev st (PostResetPassword b) = resetPassword ev st b"
| "authRouter ev st PostGoogleLogin = googleLogin ev st"
| "authRouter ev st (PostGoogleCallback code) = googleVerifyToken ev st code"

section \<open>A concrete deployment\<close>

text \<open>
  An environment and a registered, not yet verified user, on which the flows are
  evaluated. The hashing functions here only stand for the library: a hash is the
  password behind a fixed prefix.
\<close>

definition demo_env :: env where
  "demo_env =
     \<lparr>Date_now = 1000000, randomUUID = ''uuid-1'', JWT_SECRET = Some ''s3cret'',
      GOOGLE_CLIENT_ID = Some ''client-1'',
      GOOGLE_REDIRECT_URI = Some ''http://localhost:4000/api/auth/oauth/google/callback'',
      bcrypt_hash = (\<lambda>p. ''$2a$10$'' @ p),
      bcrypt_compare = (\<lambda>p h. h = ''$2a$10$'' @ p),
      sendMail_ok = True,
      google_token = (\<lambda>c. Inr (Some ''ya29'')),
      google_userinfo = (\<lambda>a. Inr \<lparr>p_email = Some ''al@x.com'', p_name = Some ''Al''\<rparr>)\<rparr>"

definition al :: user where
  "al = \<lparr>uid = 1, email = ''al@x.com'', name = ''Al'', password = ''$2a$10$pw1'',
         verifyToken = ''uuid-1'', verifyTokenExpireAt = 1900000, isAccountVerified = False,
         resetToken = [], resetTokenExpireAt = 0\<rparr>"

definition al_reset :: user where
  "al_reset = al\<lparr>resetToken := ''uuid-2'', resetTokenExpireAt := 1900000\<rparr>"

section \<open>Lookups after a write\<close>

lemma find_updateOne_email:
  "(\<And>d. email (f d) = email d) \<Longrightarrow>
   find (\<lambda>d. email d = e) (updateOne (\<lambda>d. email d = e) f st) =
   map_option f (find (\<lambda>d. email d = e) st)"
  by (induction st) auto

lemma find_save:
  "find (\<lambda>d. email d = e) st = Some u \<Longrightarrow> distinct (map uid st) \<Longrightarrow> email u' = e \<Longrightarrow>
   uid u' = uid u \<Longrightarrow> find (\<lambda>d. email d = e) (save u' st) = Some u'"
proof (induction st)
  case Nil
  then show ?case by simp
next
  case (Cons d ds)
  show ?case
  proof (cases "email d = e")
    case True
    with Cons.prems show ?thesis by (simp add: save_def)
  next
    case False
    with Cons.prems have f: "find (\<lambda>d. email d = e) ds = Some u" by simp
    then have "u \<in> set ds" by (auto simp: find_Some_iff)
    with Cons.prems have "uid d \<noteq> uid u" by force
    with Cons.IH f Cons.prems False show ?thesis by (simp add: save_def)
  qed
qed

lemma find_email: "find (\<lambda>d. email d = e) st = Some u \<Longrightarrow> email u = e"
  by (auto simp: find_Some_iff)

lemma find_snoc:
  "find P (xs @ [x]) =
   (case find P xs of None \<Rightarrow> (if P x then Some x else None) | Some y \<Rightarrow> Some y)"
  by (induction xs) auto

lemma falsy_val: "\<not> falsy x \<Longrightarrow> val x \<noteq> []"
  by (cases x) auto

lemma falsy_Some_val: "\<not> falsy x \<Longrightarrow> x = Some (val x)"
  by (cases x) auto

section \<open>Sign-in\<close>

text \<open>
  For C7: two requests outside the four cases of sign-in. A request
  without body is not answered by the controller. And with the signing secret unset, a
  request with the registered email and the right password is answered with
  \<^verbatim>\<open>success: false\<close> and the message of \<^verbatim>\<open>jwt.sign\<close>.
\<close>

theorem Signin_outcome_counterexample:
  "Signin demo_env [al] None =
     \<lparr>outcome = Unhandled (no_body ''email''), db = [al], outbox = []\<rparr>
   \<and> findOne [al] (Some ''al@x.com'') = Some al
   \<and> bcrypt_compare (demo_env\<lparr>JWT_SECRET := None\<rparr>) ''pw1'' (password al)
   \<and> Signin (demo_env\<lparr>JWT_SECRET := None\<rparr>) [al]
        (Some [''email'' \<mapsto> ''al@x.com'', ''password'' \<mapsto> ''pw1'']) =
       \<lparr>outcome = Reply \<lparr>success = False,
                         message = Some ''secretOrPrivateKey must have a value'',
                         cookie = None\<rparr>,
        db = [al], outbox = []\<rparr>"
  by (simp add: Signin_def demo_env_def al_def crash_def fail_def jwt_sign_def)

text \<open>
  C7, amended. Every sign-in request that has a body falls into exactly one of five
  cases, tried in this order. A missing email or password gives the validation failure;
  otherwise an email that no document has gives the failure with message
  \<^verbatim>\<open>Invalid email\<close>; otherwise a password that the library's \<^verbatim>\<open>bcrypt.compare\<close> does
  not match against the stored hash gives \<^verbatim>\<open>Incorrect password\<close>; otherwise, with the
  signing secret set, the answer is a success that sets the session cookie, a token
  signed for the user's id; and with the secret unset or empty, the answer is the failure
  with the message of \<^verbatim>\<open>jwt.sign\<close>. No case changes the collection.
\<close>

theorem Signin_outcome:
  "(falsy (b ''email'') \<or> falsy (b ''password'') \<longrightarrow>
      Signin ev st (Some b) = fail st ''Email and password are required'')
   \<and> (\<not> falsy (b ''email'') \<and> \<not> falsy (b ''password'') \<and> findOne st (b ''email'') = None \<longrightarrow>
        Signin ev st (Some b) = fail st ''Invalid email'')
   \<and> (\<not> falsy (b ''email'') \<and> \<not> falsy (b ''password'') \<and> findOne st (b ''email'') = Some u
        \<and> \<not> bcrypt_compare ev (val (b ''password'')) (password u) \<longrightarrow>
        Signin ev st (Some b) = fail st ''Incorrect password'')
   \<and> (\<not> falsy (b ''email'') \<and> \<not> falsy (b ''password'') \<and> findOne st (b ''email'') = Some u
        \<and> bcrypt_compare ev (val (b ''password'')) (password u) \<and> \<not> falsy (JWT_SECRET ev) \<longrightarrow>
        Signin ev st (Some b) =
          \<lparr>outcome = Reply \<lparr>success = True, message = None,
             cookie = Some (session_cookie
                       (Signed (IdClaim (uid u)) (Date_now ev div 1000)
                          (Date_now ev div 1000 + 7 * 24 * 60 * 60) (val (JWT_SECRET ev))))\<rparr>,
           db = st, outbox = []\<rparr>)
   \<and> (\<not> falsy (b ''email'') \<and> \<not> falsy (b ''password'') \<and> findOne st (b ''email'') = Some u
        \<and> bcrypt_compare ev (val (b ''password'')) (password u) \<and> falsy (JWT_SECRET ev) \<longrightarrow>
        Signin ev st (Some b) = fail st ''secretOrPrivateKey must have a value'')"
  by (simp add: Signin_def jwt_sign_def)

theorem Signin_outcome_witness:
  "falsy ([''password'' \<mapsto> ''pw1''] ''email'')
   \<and> Signin demo_env [al] (Some [''password'' \<mapsto> ''pw1'']) =
       fail [al] ''Email and password are required''
   \<and> findOne [al] (Some ''bo@x.com'') = None
   \<and> Signin demo_env [al] (Some [''email'' \<mapsto> ''bo@x.com'', ''password'' \<mapsto> ''pw1'']) =
       fail [al] ''Invalid email''
   \<and> findOne [al] (Some ''al@x.com'') = Some al
   \<and> \<not> bcrypt_compare demo_env ''pw2'' (password al)
   \<and> Signin demo_env [al] (Some [''email'' \<mapsto> ''al@x.com'', ''password'' \<mapsto> ''pw2'']) =
       fail [al] ''Incorrect password''
   \<and> bcrypt_compare demo_env ''pw1'' (password al)
   \<and> \<not> falsy (JWT_SECRET demo_env)
   \<and> Signin demo_env [al] (Some [''email'' \<mapsto> ''al@x.com'', ''password'' \<mapsto> ''pw1'']) =
       \<lparr>outcome = Reply \<lparr>success = True, message = None,
          cookie = Some (session_cookie (Signed (IdClaim 1) 1000 605800 ''s3cret''))\<rparr>,
        db = [al], outbox = []\<rparr>
   \<and> falsy (JWT_SECRET (demo_env\<lparr>JWT_SECRET := Some []\<rparr>))
   \<and> Signin (demo_env\<lparr>JWT_SECRET := Some []\<rparr>) [al]
        (Some [''email'' \<mapsto> ''al@x.com'', ''password'' \<mapsto> ''pw1'']) =
       fail [al] ''secretOrPrivateKey must have a value''"
  using Signin_outcome [where b = "[''password'' \<mapsto> ''pw1'']" and ev = demo_env and st = "[al]"]
    Signin_outcome [where b = "[''email'' \<mapsto> ''bo@x.com'', ''password'' \<mapsto> ''pw1'']"
      and ev = demo_env and st = "[al]"]
    Signin_outcome [where b = "[''email'' \<mapsto> ''al@x.com'', ''password'' \<mapsto> ''pw2'']"
      and ev = demo_env and st = "[al]" and u = al]
    Signin_outcome [where b = "[''email'' \<mapsto> ''al@x.com'', ''password'' \<mapsto> ''pw1'']"
      and ev = demo_env and st = "[al]" and u = al]
    Signin_outcome [where b = "[''email'' \<mapsto> ''al@x.com'', ''password'' \<mapsto> ''pw1'']"
      and ev = "demo_env\<lparr>JWT_SECRET := Some []\<rparr>" and st = "[al]" and u = al]
  by (simp add: demo_env_def al_def)

text \<open>
  For C8: an unverified user with a pending verification token and the right password,
  on a deployment whose signing secret is unset. The answer is not a success and sets no
  cookie.
\<close>

theorem Signin_ignores_verification_counterexample:
  "\<not> isAccountVerified al \<and> verifyToken al = ''uuid-1''
   \<and> findOne [al] (Some ''al@x.com'') = Some al
   \<and> bcrypt_compare (demo_env\<lparr>JWT_SECRET := None\<rparr>) ''pw1'' (password al)
   \<and> outcome (Signin (demo_env\<lparr>JWT_SECRET := None\<rparr>) [al]
        (Some [''email'' \<mapsto> ''al@x.com'', ''password'' \<mapsto> ''pw1''])) =
       Reply \<lparr>success = False, message = Some ''secretOrPrivateKey must have a value'',
              cookie = None\<rparr>"
  by (simp add: Signin_def demo_env_def al_def fail_def jwt_sign_def)

text \<open>
  C8, amended. Sign-in does not look at the verification state. Whenever the stored hash
  of the user matches the password and the signing secret is set, the answer is the
  success with the session cookie; and, whether the secret is set or not, the answer stays
  the same when the verification flag, the verification token and its expiry of that user
  are set to any other values, in particular to an unverified account with a pending
  token.
\<close>

theorem Signin_ignores_verification:
  assumes "findOne st (b ''email'') = Some u"
    and "\<not> falsy (b ''email'')" and "\<not> falsy (b ''password'')"
    and "bcrypt_compare ev (val (b ''password'')) (password u)"
  shows "(\<not> falsy (JWT_SECRET ev) \<longrightarrow>
            outcome (Signin ev st (Some b)) =
              Reply \<lparr>success = True, message = None,
                cookie = Some (session_cookie
                          (Signed (IdClaim (uid u)) (Date_now ev div 1000)
                             (Date_now ev div 1000 + 7 * 24 * 60 * 60) (val (JWT_SECRET ev))))\<rparr>)
         \<and> outcome (Signin ev
               (updateOne (\<lambda>d. email d = val (b ''email''))
                  (\<lambda>d. d\<lparr>isAccountVerified := v, verifyToken := t, verifyTokenExpireAt := x\<rparr>) st)
               (Some b)) =
           outcome (Signin ev st (Some b))"
proof -
  let ?f = "\<lambda>d. d\<lparr>isAccountVerified := v, verifyToken := t, verifyTokenExpireAt := x\<rparr>"
  have e: "b ''email'' = Some (val (b ''email''))"
    using assms(2) by (rule falsy_Some_val)
  have u: "find (\<lambda>d. email d = val (b ''email'')) st = Some u"
    using assms(1) by (subst (asm) e) simp
  have "find (\<lambda>d. email d = val (b ''email''))
          (updateOne (\<lambda>d. email d = val (b ''email'')) ?f st) = Some (?f u)"
    using u by (simp add: find_updateOne_email)
  then have "findOne (updateOne (\<lambda>d. email d = val (b ''email'')) ?f st) (b ''email'') = Some (?f u)"
    by (subst e) simp
  with assms show ?thesis
    by (auto simp: Signin_def jwt_sign_def fail_def split: sum.splits)
qed

theorem Signin_ignores_verification_witness:
  "findOne [al] ([''email'' \<mapsto> ''al@x.com'', ''password'' \<mapsto> ''pw1''] ''email'') = Some al
   \<and> \<not> isAccountVerified al \<and> verifyToken al = ''uuid-1''
   \<and> bcrypt_compare demo_env ''pw1'' (password al)
   \<and> \<not> falsy (JWT_SECRET demo_env)
   \<and> outcome (Signin demo_env [al] (Some [''email'' \<mapsto> ''al@x.com'', ''password'' \<mapsto> ''pw1''])) =
       Reply \<lparr>success = True, message = None,
          cookie = Some (session_cookie (Signed (IdClaim 1) 1000 605800 ''s3cret''))\<rparr>"
  using Signin_ignores_verification [where st = "[al]"
      and b = "[''email'' \<mapsto> ''al@x.com'', ''password'' \<mapsto> ''pw1'']" and u = al
      and ev = demo_env]
  by (simp add: demo_env_def al_def)

section \<open>The token lifecycle\<close>

text \<open>
  C1. Tokens are single-use. When \<open>verifyAccount\<close> answers with a success, the document
  of that email has afterwards an empty verification token, expiry \<open>0\<close> and the verified
  flag, all written by the one update of that step; and the same request, sent again at
  any later time, gets the failure \<^verbatim>\<open>Link in not valid\<close> and changes nothing. When
  \<open>verifyResetToken\<close> answers with a success, the document has an empty reset token and
  expiry \<open>0\<close>, and the same request sent again gets \<^verbatim>\<open>Invalid Link.\<close>. The reset
  flow writes the document back under its \<^verbatim>\<open>_id\<close>, which is the key of the collection:
  ids are distinct.
\<close>

theorem single_use_tokens:
  "(outcome (verifyAccount ev st rb) = Reply r \<and> success r \<longrightarrow>
      (\<exists>b u'. rb = Some b \<and> findOne (db (verifyAccount ev st rb)) (b ''email'') = Some u'
            \<and> verifyToken u' = [] \<and> verifyTokenExpireAt u' = 0 \<and> isAccountVerified u')
      \<and> (\<forall>ev'. verifyAccount ev' (db (verifyAccount ev st rb)) rb =
                 fail (db (verifyAccount ev st rb)) ''Link in not valid''))
   \<and> (distinct (map uid st) \<and> outcome (verifyResetToken ev st rb) = Reply r \<and> success r \<longrightarrow>
      (\<exists>b u'. rb = Some b \<and> findOne (db (verifyResetToken ev st rb)) (b ''email'') = Some u'
            \<and> resetToken u' = [] \<and> resetTokenExpireAt u' = 0)
      \<and> (\<forall>ev'. verifyResetToken ev' (db (verifyResetToken ev st rb)) rb =
                 fail (db (verifyResetToken ev st rb)) ''Invalid Link.''))"
proof (intro conjI impI)
  assume a: "outcome (verifyAccount ev st rb) = Reply r \<and> success r"
  let ?f = "\<lambda>d. d\<lparr>isAccountVerified := True, verifyToken := [], verifyTokenExpireAt := 0\<rparr>"
  from a obtain b where rb: "rb = Some b"
    by (cases rb) (auto simp: verifyAccount_def crash_def)
  from a obtain s u where e: "b ''email'' = Some s" "s \<noteq> []"
    and t: "\<not> falsy (b ''token'')"
    and u: "find (\<lambda>d. email d = s) st = Some u"
    and d: "db (verifyAccount ev st rb) = updateOne (\<lambda>d. email d = s) ?f st"
    unfolding rb
    by (cases "b ''email''")
      (auto simp: verifyAccount_def fail_def Let_def split: option.splits if_splits sum.splits)
  have f: "findOne (db (verifyAccount ev st rb)) (b ''email'') = Some (?f u)"
    using u unfolding d by (simp add: e find_updateOne_email)
  then show "\<exists>b u'. rb = Some b \<and> findOne (db (verifyAccount ev st rb)) (b ''email'') = Some u'
            \<and> verifyToken u' = [] \<and> verifyTokenExpireAt u' = 0 \<and> isAccountVerified u'"
    using rb by simp
  from t have "val (b ''token'') \<noteq> []" by (rule falsy_val)
  with f e t show "\<forall>ev'. verifyAccount ev' (db (verifyAccount ev st rb)) rb =
                 fail (db (verifyAccount ev st rb)) ''Link in not valid''"
    by (auto simp: verifyAccount_def rb Let_def)
next
  assume a: "distinct (map uid st) \<and> outcome (verifyResetToken ev st rb) = Reply r \<and> success r"
  from a obtain b where rb: "rb = Some b"
    by (cases rb) (auto simp: verifyResetToken_def crash_def)
  from a obtain s u where e: "b ''email'' = Some s" "s \<noteq> []"
    and t: "\<not> falsy (b ''resetToken'')"
    and u: "find (\<lambda>d. email d = s) st = Some u"
    and d: "db (verifyResetToken ev st rb) =
              save (u\<lparr>resetToken := [], resetTokenExpireAt := 0\<rparr>) st"
    unfolding rb
    by (cases "b ''email''")
      (auto simp: verifyResetToken_def fail_def Let_def split: option.splits if_splits)
  have f: "findOne (db (verifyResetToken ev st rb)) (b ''email'') =
             Some (u\<lparr>resetToken := [], resetTokenExpireAt := 0\<rparr>)"
    using u a find_email[OF u] unfolding d by (simp add: e find_save)
  then show "\<exists>b u'. rb = Some b \<and> findOne (db (verifyResetToken ev st rb)) (b ''email'') = Some u'
            \<and> resetToken u' = [] \<and> resetTokenExpireAt u' = 0"
    using rb by simp
  from f e t show "\<forall>ev'. verifyResetToken ev' (db (verifyResetToken ev st rb)) rb =
                 fail (db (verifyResetToken ev st rb)) ''Invalid Link.''"
    by (auto simp: verifyResetToken_def rb Let_def)
qed

theorem single_use_tokens_witness:
  "outcome (verifyAccount demo_env [al] (Some [''token'' \<mapsto> ''uuid-1'', ''email'' \<mapsto> ''al@x.com''])) =
     Reply \<lparr>success = True, message = Some ''Account verified'',
            cookie = Some (session_cookie (Signed (IdClaim 1) 1000 605800 ''s3cret''))\<rparr>
   \<and> db (verifyAccount demo_env [al] (Some [''token'' \<mapsto> ''uuid-1'', ''email'' \<mapsto> ''al@x.com''])) =
       [al\<lparr>isAccountVerified := True, verifyToken := [], verifyTokenExpireAt := 0\<rparr>]
   \<and> verifyAccount demo_env
        (db (verifyAccount demo_env [al]
               (Some [''token'' \<mapsto> ''uuid-1'', ''email'' \<mapsto> ''al@x.com''])))
        (Some [''token'' \<mapsto> ''uuid-1'', ''email'' \<mapsto> ''al@x.com'']) =
       fail [al\<lparr>isAccountVerified := True, verifyToken := [], verifyTokenExpireAt := 0\<rparr>]
         ''Link in not valid''
   \<and> distinct (map uid [al_reset])
   \<and> outcome (verifyResetToken demo_env [al_reset]
        (Some [''email'' \<mapsto> ''al@x.com'', ''resetToken'' \<mapsto> ''uuid-2''])) =
       Reply \<lparr>success = True, message = Some ''Enter new password'', cookie = None\<rparr>
   \<and> db (verifyResetToken demo_env [al_reset]
        (Some [''email'' \<mapsto> ''al@x.com'', ''resetToken'' \<mapsto> ''uuid-2''])) = [al]
   \<and> verifyResetToken demo_env
        (db (verifyResetToken demo_env [al_reset]
               (Some [''email'' \<mapsto> ''al@x.com'', ''resetToken'' \<mapsto> ''uuid-2''])))
        (Some [''email'' \<mapsto> ''al@x.com'', ''resetToken'' \<mapsto> ''uuid-2'']) =
       fail [al] ''Invalid Link.''"
  using single_use_tokens [where ev = demo_env and st = "[al]"
      and rb = "Some [''token'' \<mapsto> ''uuid-1'', ''email'' \<mapsto> ''al@x.com'']"
      and r = "\<lparr>success = True, message = Some ''Account verified'',
            cookie = Some (session_cookie (Signed (IdClaim 1) 1000 605800 ''s3cret''))\<rparr>"]
    single_use_tokens [where ev = demo_env and st = "[al_reset]"
      and rb = "Some [''email'' \<mapsto> ''al@x.com'', ''resetToken'' \<mapsto> ''uuid-2'']"
      and r = "\<lparr>success = True, message = Some ''Enter new password'', cookie = None\<rparr>"]
  by (simp add: demo_env_def al_def al_reset_def jwt_sign_def verifyAccount_def
      verifyResetToken_def save_def fail_def Let_def)

text \<open>
  For C2: one millisecond before the expiry, with the matching verification token, on a
  deployment whose signing secret is unset. The request is not accepted: the answer is
  \<^verbatim>\<open>success: false\<close> with the message of \<^verbatim>\<open>jwt.sign\<close>.
\<close>

theorem expiry_boundary_counterexample:
  "findOne [al] (Some ''al@x.com'') = Some al \<and> verifyToken al = ''uuid-1''
   \<and> Date_now (demo_env\<lparr>Date_now := 1899999, JWT_SECRET := None\<rparr>) = verifyTokenExpireAt al - 1
   \<and> outcome (verifyAccount (demo_env\<lparr>Date_now := 1899999, JWT_SECRET := None\<rparr>) [al]
        (Some [''token'' \<mapsto> ''uuid-1'', ''email'' \<mapsto> ''al@x.com''])) =
       Reply \<lparr>success = False, message = Some ''secretOrPrivateKey must have a value'',
              cookie = None\<rparr>"
  by (simp add: verifyAccount_def demo_env_def al_def fail_def jwt_sign_def Let_def)

text \<open>
  C2, amended. The expiry boundary, for the verification token and for the reset token
  alike. Once the clock is past the stored expiry the request is refused whatever its
  other fields are, and with the matching token the refusal is the expiry message
  (\<^verbatim>\<open>Link is Expired\<close>, \<^verbatim>\<open>Link expired\<close>). One millisecond before the expiry the
  matching reset token is accepted, and the matching verification token is accepted when
  the signing secret is set, so that the session token can be signed.
\<close>

theorem expiry_boundary:
  "(findOne st (b ''email'') = Some u \<and> verifyTokenExpireAt u < Date_now ev \<longrightarrow>
      (\<exists>m. verifyAccount ev st (Some b) = fail st m))
   \<and> (findOne st (b ''email'') = Some u \<and> \<not> falsy (b ''token'') \<and> \<not> falsy (b ''email'')
        \<and> verifyToken u = val (b ''token'') \<and> verifyTokenExpireAt u < Date_now ev \<longrightarrow>
      verifyAccount ev st (Some b) = fail st ''Link is Expired'')
   \<and> (findOne st (b ''email'') = Some u \<and> \<not> falsy (b ''token'') \<and> \<not> falsy (b ''email'')
        \<and> verifyToken u = val (b ''token'') \<and> Date_now ev = verifyTokenExpireAt u - 1
        \<and> \<not> falsy (JWT_SECRET ev) \<longrightarrow>
      outcome (verifyAccount ev st (Some b)) =
        Reply \<lparr>success = True, message = Some ''Account verified'',
               cookie = Some (session_cookie
                         (Signed (IdClaim (uid u)) (Date_now ev div 1000)
                            (Date_now ev div 1000 + 7 * 24 * 60 * 60) (val (JWT_SECRET ev))))\<rparr>)
   \<and> (findOne st (b ''email'') = Some u \<and> resetTokenExpireAt u < Date_now ev \<longrightarrow>
      (\<exists>m. verifyResetToken ev st (Some b) = fail st m))
   \<and> (findOne st (b ''email'') = Some u \<and> \<not> falsy (b ''resetToken'') \<and> \<not> falsy (b ''email'')
        \<and> resetToken u = val (b ''resetToken'') \<and> resetTokenExpireAt u < Date_now ev \<longrightarrow>
      verifyResetToken ev st (Some b) = fail st ''Link expired'')
   \<and> (findOne st (b ''email'') = Some u \<and> \<not> falsy (b ''resetToken'') \<and> \<not> falsy (b ''email'')
        \<and> resetToken u = val (b ''resetToken'') \<and> Date_now ev = resetTokenExpireAt u - 1 \<longrightarrow>
      outcome (verifyResetToken ev st (Some b)) =
        Reply \<lparr>success = True, message = Some ''Enter new password'', cookie = None\<rparr>)"
proof -
  have nonempty: "\<And>x. \<not> falsy x \<Longrightarrow> val x \<noteq> []" by (rule falsy_val)
  show ?thesis
    using nonempty [of "b ''token''"] nonempty [of "b ''resetToken''"]
    by (auto simp: verifyAccount_def verifyResetToken_def jwt_sign_def Let_def)
qed

theorem expiry_boundary_witness:
  "findOne [al] (Some ''al@x.com'') = Some al
   \<and> verifyTokenExpireAt al < Date_now (demo_env\<lparr>Date_now := 1900001\<rparr>)
   \<and> verifyAccount (demo_env\<lparr>Date_now := 1900001\<rparr>) [al]
        (Some [''token'' \<mapsto> ''wrong'', ''email'' \<mapsto> ''al@x.com'']) =
       fail [al] ''Link in not valid''
   \<and> verifyAccount (demo_env\<lparr>Date_now := 1900001\<rparr>) [al]
        (Some [''token'' \<mapsto> ''uuid-1'', ''email'' \<mapsto> ''al@x.com'']) =
       fail [al] ''Link is Expired''
   \<and> Date_now (demo_env\<lparr>Date_now := 1899999\<rparr>) = verifyTokenExpireAt al - 1
   \<and> \<not> falsy (JWT_SECRET (demo_env\<lparr>Date_now := 1899999\<rparr>))
   \<and> outcome (verifyAccount (demo_env\<lparr>Date_now := 1899999\<rparr>) [al]
        (Some [''token'' \<mapsto> ''uuid-1'', ''email'' \<mapsto> ''al@x.com''])) =
       Reply \<lparr>success = True, message = Some ''Account verified'',
              cookie = Some (session_cookie (Signed (IdClaim 1) 1899 606699 ''s3cret''))\<rparr>
   \<and> findOne [al_reset] (Some ''al@x.com'') = Some al_reset
   \<and> resetTokenExpireAt al_reset < Date_now (demo_env\<lparr>Date_now := 1900001\<rparr>)
   \<and> verifyResetToken (demo_env\<lparr>Date_now := 1900001\<rparr>) [al_reset]
        (Some [''email'' \<mapsto> ''al@x.com'']) = fail [al_reset] ''Missing Details.''
   \<and> verifyResetToken (demo_env\<lparr>Date_now := 1900001\<rparr>) [al_reset]
        (Some [''email'' \<mapsto> ''al@x.com'', ''resetToken'' \<mapsto> ''uuid-2'']) =
       fail [al_reset] ''Link expired''
   \<and> Date_now (demo_env\<lparr>Date_now := 1899999\<rparr>) = resetTokenExpireAt al_reset - 1
   \<and> outcome (verifyResetToken (demo_env\<lparr>Date_now := 1899999\<rparr>) [al_reset]
        (Some [''email'' \<mapsto> ''al@x.com'', ''resetToken'' \<mapsto> ''uuid-2''])) =
       Reply \<lparr>success = True, message = Some ''Enter new password'', cookie = None\<rparr>"
  using expiry_boundary [where st = "[al]" and u = al
      and b = "[''token'' \<mapsto> ''wrong'', ''email'' \<mapsto> ''al@x.com'']"
      and ev = "demo_env\<lparr>Date_now := 1900001\<rparr>"]
    expiry_boundary [where st = "[al]" and u = al
      and b = "[''token'' \<mapsto> ''uuid-1'', ''email'' \<mapsto> ''al@x.com'']"
      and ev = "demo_env\<lparr>Date_now := 1900001\<rparr>"]
    expiry_boundary [where st = "[al]" and u = al
      and b = "[''token'' \<mapsto> ''uuid-1'', ''email'' \<mapsto> ''al@x.com'']"
      and ev = "demo_env\<lparr>Date_now := 1899999\<rparr>"]
    expiry_boundary [where st = "[al_reset]" and u = al_reset
      and b = "[''email'' \<mapsto> ''al@x.com'']"
      and ev = "demo_env\<lparr>Date_now := 1900001\<rparr>"]
    expiry_boundary [where st = "[al_reset]" and u = al_reset
      and b = "[''email'' \<mapsto> ''al@x.com'', ''resetToken'' \<mapsto> ''uuid-2'']"
      and ev = "demo_env\<lparr>Date_now := 1900001\<rparr>"]
    expiry_boundary [where st = "[al_reset]" and u = al_reset
      and b = "[''email'' \<mapsto> ''al@x.com'', ''resetToken'' \<mapsto> ''uuid-2'']"
      and ev = "demo_env\<lparr>Date_now := 1899999\<rparr>"]
  by (simp add: demo_env_def al_def al_reset_def jwt_sign_def verifyAccount_def
      verifyResetToken_def fail_def Let_def)

text \<open>
  C10. A second reset request overwrites the first. After two calls of \<open>sendResetToken\<close>
  for the same user, with different tokens drawn, the document holds the second token and
  the expiry of the second call (fifteen minutes after it). Within that time
  \<open>verifyResetToken\<close> succeeds with the second token, and with the first token it answers
  \<^verbatim>\<open>Invalid Link.\<close> and changes nothing.
\<close>

theorem reset_reissue_overwrites:
  assumes "findOne st (Some e) = Some u" and "e \<noteq> []"
    and "randomUUID eva \<noteq> randomUUID evb"
    and "randomUUID eva \<noteq> []" and "randomUUID evb \<noteq> []"
    and "Date_now evc \<le> Date_now evb + 1000 * 60 * 15"
    and "ba ''email'' = Some e" and "bb ''email'' = Some e"
    and "stb = db (sendResetToken evb (db (sendResetToken eva st (Some ba))) (Some bb))"
    and "bc ''email'' = Some e" and "bc ''resetToken'' = Some (randomUUID evb)"
    and "bd ''email'' = Some e" and "bd ''resetToken'' = Some (randomUUID eva)"
  shows "(\<exists>u'. findOne stb (Some e) = Some u' \<and> resetToken u' = randomUUID evb
              \<and> resetTokenExpireAt u' = Date_now evb + 1000 * 60 * 15)
         \<and> outcome (verifyResetToken evc stb (Some bc)) =
             Reply \<lparr>success = True, message = Some ''Enter new password'', cookie = None\<rparr>
         \<and> verifyResetToken evc stb (Some bd) = fail stb ''Invalid Link.''"
proof -
  let ?f1 = "\<lambda>d. d\<lparr>resetToken := randomUUID eva,
                    resetTokenExpireAt := Date_now eva + 1000 * 60 * 15\<rparr>"
  let ?f2 = "\<lambda>d. d\<lparr>resetToken := randomUUID evb,
                    resetTokenExpireAt := Date_now evb + 1000 * 60 * 15\<rparr>"
  let ?sta = "db (sendResetToken eva st (Some ba))"
  have s1: "?sta = updateOne (\<lambda>d. email d = e) ?f1 st"
    using assms(1,2,7) by (simp add: sendResetToken_def Let_def)
  have f1: "findOne ?sta (Some e) = Some (?f1 u)"
    using assms(1) unfolding s1 by (simp add: find_updateOne_email)
  have s2: "stb = updateOne (\<lambda>d. email d = e) ?f2 ?sta"
    using f1 assms(2,8) unfolding assms(9) by (simp add: sendResetToken_def Let_def)
  have f2: "findOne stb (Some e) = Some (?f2 (?f1 u))"
    using f1 unfolding s2 by (simp add: find_updateOne_email)
  from f2 assms(2-6) assms(10-13) show ?thesis
    by (auto simp: verifyResetToken_def Let_def)
qed

theorem reset_reissue_overwrites_witness:
  "findOne [al] (Some ''al@x.com'') = Some al
   \<and> db (sendResetToken (demo_env\<lparr>randomUUID := ''uuid-3''\<rparr>)
         (db (sendResetToken (demo_env\<lparr>randomUUID := ''uuid-2''\<rparr>) [al]
                (Some [''email'' \<mapsto> ''al@x.com''])))
         (Some [''email'' \<mapsto> ''al@x.com''])) =
       [al\<lparr>resetToken := ''uuid-3'', resetTokenExpireAt := 1900000\<rparr>]
   \<and> outcome (verifyResetToken demo_env
        [al\<lparr>resetToken := ''uuid-3'', resetTokenExpireAt := 1900000\<rparr>]
        (Some [''email'' \<mapsto> ''al@x.com'', ''resetToken'' \<mapsto> ''uuid-3''])) =
       Reply \<lparr>success = True, message = Some ''Enter new password'', cookie = None\<rparr>
   \<and> verifyResetToken demo_env [al\<lparr>resetToken := ''uuid-3'', resetTokenExpireAt := 1900000\<rparr>]
        (Some [''email'' \<mapsto> ''al@x.com'', ''resetToken'' \<mapsto> ''uuid-2'']) =
       fail [al\<lparr>resetToken := ''uuid-3'', resetTokenExpireAt := 1900000\<rparr>] ''Invalid Link.''"
  using reset_reissue_overwrites [where st = "[al]" and e = "''al@x.com''" and u = al
      and eva = "demo_env\<lparr>randomUUID := ''uuid-2''\<rparr>"
      and evb = "demo_env\<lparr>randomUUID := ''uuid-3''\<rparr>" and evc = demo_env
      and ba = "[''email'' \<mapsto> ''al@x.com'']" and bb = "[''email'' \<mapsto> ''al@x.com'']"
      and bc = "[''email'' \<mapsto> ''al@x.com'', ''resetToken'' \<mapsto> ''uuid-3'']"
      and bd = "[''email'' \<mapsto> ''al@x.com'', ''resetToken'' \<mapsto> ''uuid-2'']"
      and stb = "[al\<lparr>resetToken := ''uuid-3'', resetTokenExpireAt := 1900000\<rparr>]"]
  by (simp add: demo_env_def al_def sendResetToken_def verifyResetToken_def fail_def Let_def)

section \<open>Registration\<close>

text \<open>
  C5. A registration for an email that is already in the collection, with name, email and
  password present, is answered with \<^verbatim>\<open>User already exists\<close> and the collection stays
  as it is, so no field of the existing document changes. In particular this is the
  answer to any second registration for the email of a registration that succeeded.
\<close>

theorem register_conflict:
  "(findOne st (b ''email'') = Some u \<and> \<not> falsy (b ''name'') \<and> \<not> falsy (b ''email'')
      \<and> \<not> falsy (b ''password'') \<longrightarrow>
      register ev st (Some b) = fail st ''User already exists'')
   \<and> (outcome (register ev st (Some b)) = Reply r \<and> success r \<and> b' ''email'' = b ''email''
        \<and> \<not> falsy (b' ''name'') \<and> \<not> falsy (b' ''password'') \<longrightarrow>
      register ev' (db (register ev st (Some b))) (Some b') =
        fail (db (register ev st (Some b))) ''User already exists'')"
proof (intro conjI impI)
  assume "findOne st (b ''email'') = Some u \<and> \<not> falsy (b ''name'') \<and> \<not> falsy (b ''email'')
      \<and> \<not> falsy (b ''password'')"
  then show "register ev st (Some b) = fail st ''User already exists''"
    by (simp add: register_def)
next
  assume a: "outcome (register ev st (Some b)) = Reply r \<and> success r \<and> b' ''email'' = b ''email''
        \<and> \<not> falsy (b' ''name'') \<and> \<not> falsy (b' ''password'')"
  let ?u = "(new_UserModel (new_ObjectId st) (val (b ''email'')) (val (b ''name'')))
              \<lparr>password := bcrypt_hash ev (val (b ''password'')), verifyToken := randomUUID ev,
               verifyTokenExpireAt := Date_now ev + 1000 * 60 * 15\<rparr>"
  from a obtain s where e: "b ''email'' = Some s" "s \<noteq> []"
    and none: "find (\<lambda>d. email d = s) st = None"
    and d: "db (register ev st (Some b)) = st @ [?u]"
    by (cases "b ''email''")
      (auto simp: register_def fail_def Let_def save_new_def
        split: option.splits if_splits sum.splits)
  from a have b': "b' ''email'' = Some s" "\<not> falsy (b' ''name'')" "\<not> falsy (b' ''password'')"
    by (simp_all add: e)
  define st' where "st' = db (register ev st (Some b))"
  have "email ?u = s" by (simp add: new_UserModel_def e)
  then have "findOne st' (b' ''email'') = Some ?u"
    using none unfolding st'_def d by (simp add: b' find_snoc)
  with b' e have "register ev' st' (Some b') = fail st' ''User already exists''"
    by (simp add: register_def)
  then show "register ev' (db (register ev st (Some b))) (Some b') =
        fail (db (register ev st (Some b))) ''User already exists''"
    unfolding st'_def .
qed

theorem register_conflict_witness:
  "findOne [al] (Some ''al@x.com'') = Some al
   \<and> register demo_env [al]
        (Some [''name'' \<mapsto> ''Alfred'', ''email'' \<mapsto> ''al@x.com'', ''password'' \<mapsto> ''pw9'']) =
       fail [al] ''User already exists''
   \<and> register demo_env []
        (Some [''name'' \<mapsto> ''Al'', ''email'' \<mapsto> ''al@x.com'', ''password'' \<mapsto> ''pw1'']) =
       \<lparr>outcome = Reply \<lparr>success = True, message = None, cookie = None\<rparr>, db = [al],
        outbox = [\<lparr>mail_to = ''al@x.com'', subject = ''Welcome to this website'',
                   url = ''http://localhost:5173/verifyAccount?token=uuid-1&email=al@x.com''\<rparr>]\<rparr>
   \<and> register demo_env
        (db (register demo_env []
               (Some [''name'' \<mapsto> ''Al'', ''email'' \<mapsto> ''al@x.com'', ''password'' \<mapsto> ''pw1''])))
        (Some [''name'' \<mapsto> ''Al'', ''email'' \<mapsto> ''al@x.com'', ''password'' \<mapsto> ''pw1'']) =
       fail [al] ''User already exists''"
  using register_conflict [where st = "[al]" and u = al and ev = demo_env
      and b = "[''name'' \<mapsto> ''Alfred'', ''email'' \<mapsto> ''al@x.com'', ''password'' \<mapsto> ''pw9'']"]
    register_conflict [where st = "[]" and ev = demo_env and ev' = demo_env
      and b = "[''name'' \<mapsto> ''Al'', ''email'' \<mapsto> ''al@x.com'', ''password'' \<mapsto> ''pw1'']"
      and b' = "[''name'' \<mapsto> ''Al'', ''email'' \<mapsto> ''al@x.com'', ''password'' \<mapsto> ''pw1'']"
      and r = "\<lparr>success = True, message = None, cookie = None\<rparr>"]
  by (simp add: demo_env_def al_def register_def fail_def Let_def save_new_def new_UserModel_def
      new_ObjectId_def sendMail_def)

section \<open>The Google callback\<close>

text \<open>
  For C6: the identity provider answers both calls with the same email, unknown before,
  and without a name. The schema requires the name, so that \<^verbatim>\<open>save()\<close> rejects both
  times: no call answers with a success and no document has the email afterwards.
\<close>

theorem oauth_idempotent_counterexample:
  "findOne [] (Some ''al@x.com'') = None
   \<and> googleVerifyToken
        (demo_env\<lparr>google_userinfo := \<lambda>a. Inr \<lparr>p_email = Some ''al@x.com'', p_name = None\<rparr>\<rparr>)
        [] (Some ''4/0Ab'') =
       \<lparr>outcome = Unhandled (ValidationError ''name''), db = [], outbox = []\<rparr>
   \<and> googleVerifyToken
        (demo_env\<lparr>google_userinfo := \<lambda>a. Inr \<lparr>p_email = Some ''al@x.com'', p_name = None\<rparr>\<rparr>)
        (db (googleVerifyToken
               (demo_env\<lparr>google_userinfo :=
                            \<lambda>a. Inr \<lparr>p_email = Some ''al@x.com'', p_name = None\<rparr>\<rparr>)
               [] (Some ''4/0Ab'')))
        (Some ''4/0Cd'') =
       \<lparr>outcome = Unhandled (ValidationError ''name''), db = [], outbox = []\<rparr>
   \<and> length (filter (\<lambda>d. email d = ''al@x.com'')
        (db (googleVerifyToken
               (demo_env\<lparr>google_userinfo :=
                            \<lambda>a. Inr \<lparr>p_email = Some ''al@x.com'', p_name = None\<rparr>\<rparr>)
               [] (Some ''4/0Ab'')))) = 0"
  by (simp add: googleVerifyToken_def demo_env_def jwt_sign_def Let_def save_new_def
      new_UserModel_def crash_def)

text \<open>
  C6, amended. Account creation by the callback is idempotent when the profile has a
  name and the signing secret is set. When the identity provider answers both calls and
  gives the same email, unknown before, with a name in the first call, then the first
  call adds one document (verified, no password), exactly one document has that email
  afterwards, the second call takes the branch of the existing user and leaves the
  collection as the first call left it, and both answer with a success and the session
  cookie.
\<close>

theorem oauth_idempotent:
  assumes "google_token eva ca = Inr ta" and "google_userinfo eva ta = Inr pa"
    and "google_token evb cb = Inr tb" and "google_userinfo evb tb = Inr pb"
    and "p_email pa = Some e" and "p_email pb = Some e" and "e \<noteq> []"
    and "p_name pa = Some n" and "n \<noteq> []"
    and "\<not> falsy (JWT_SECRET eva)" and "\<not> falsy (JWT_SECRET evb)"
    and "findOne st (Some e) = None"
    and "ra = googleVerifyToken eva st ca" and "rb = googleVerifyToken evb (db ra) cb"
  shows "db ra = st @ [(new_UserModel (new_ObjectId st) e n)\<lparr>isAccountVerified := True\<rparr>]
         \<and> length (filter (\<lambda>d. email d = e) (db ra)) = 1
         \<and> db rb = db ra
         \<and> outcome ra =
             Reply \<lparr>success = True, message = Some ''User registered successfully'',
                    cookie = Some (session_cookie
                      (Signed (ProfileClaim (Some e) (Some n)) (Date_now eva div 1000)
                         (Date_now eva div 1000 + 7 * 24 * 60 * 60) (val (JWT_SECRET eva))))\<rparr>
         \<and> outcome rb =
             Reply \<lparr>success = True, message = Some ''User logged in successfully'',
                    cookie = Some (session_cookie
                      (Signed (ProfileClaim (Some e) (p_name pb)) (Date_now evb div 1000)
                         (Date_now evb div 1000 + 7 * 24 * 60 * 60) (val (JWT_SECRET evb))))\<rparr>"
proof -
  let ?u = "(new_UserModel (new_ObjectId st) e n)\<lparr>isAccountVerified := True\<rparr>"
  have none: "find (\<lambda>d. email d = e) st = None" using assms(12) by simp
  have sv: "save_new ?u st = Inr (st @ [?u])"
    using none assms(7,9) by (simp add: save_new_def new_UserModel_def)
  have ra: "ra = \<lparr>outcome = Reply \<lparr>success = True, message = Some ''User registered successfully'',
                    cookie = Some (session_cookie
                      (Signed (ProfileClaim (Some e) (Some n)) (Date_now eva div 1000)
                         (Date_now eva div 1000 + 7 * 24 * 60 * 60) (val (JWT_SECRET eva))))\<rparr>,
                 db = st @ [?u], outbox = []\<rparr>"
    using assms(1,2,5,8,10) none sv unfolding assms(13)
    by (simp add: googleVerifyToken_def jwt_sign_def Let_def)
  have "filter (\<lambda>d. email d = e) st = []"
    using none by (simp add: find_None_iff filter_empty_conv)
  then have one: "length (filter (\<lambda>d. email d = e) (db ra)) = 1"
    by (simp add: ra new_UserModel_def)
  have found: "findOne (db ra) (Some e) = Some ?u"
    using none by (simp add: ra find_snoc new_UserModel_def)
  have rb: "rb = \<lparr>outcome = Reply \<lparr>success = True, message = Some ''User logged in successfully'',
                    cookie = Some (session_cookie
                      (Signed (ProfileClaim (Some e) (p_name pb)) (Date_now evb div 1000)
                         (Date_now evb div 1000 + 7 * 24 * 60 * 60) (val (JWT_SECRET evb))))\<rparr>,
                 db = db ra, outbox = []\<rparr>"
    using assms(3,4,6,11) found unfolding assms(14)
    by (simp add: googleVerifyToken_def jwt_sign_def Let_def)
  show ?thesis using one by (simp add: ra rb)
qed

theorem oauth_idempotent_witness:
  "google_token demo_env (Some ''4/0Ab'') = Inr (Some ''ya29'')
   \<and> google_userinfo demo_env (Some ''ya29'') =
       Inr \<lparr>p_email = Some ''al@x.com'', p_name = Some ''Al''\<rparr>
   \<and> \<not> falsy (JWT_SECRET demo_env)
   \<and> findOne [] (Some ''al@x.com'') = None
   \<and> db (googleVerifyToken demo_env [] (Some ''4/0Ab'')) =
       [(new_UserModel 1 ''al@x.com'' ''Al'')\<lparr>isAccountVerified := True\<rparr>]
   \<and> db (googleVerifyToken demo_env (db (googleVerifyToken demo_env [] (Some ''4/0Ab'')))
        (Some ''4/0Cd'')) =
       [(new_UserModel 1 ''al@x.com'' ''Al'')\<lparr>isAccountVerified := True\<rparr>]
   \<and> outcome (googleVerifyToken demo_env (db (googleVerifyToken demo_env [] (Some ''4/0Ab'')))
        (Some ''4/0Cd'')) =
       Reply \<lparr>success = True, message = Some ''User logged in successfully'',
              cookie = Some (session_cookie
                (Signed (ProfileClaim (Some ''al@x.com'') (Some ''Al'')) 1000 605800 ''s3cret''))\<rparr>"
  using oauth_idempotent [where eva = demo_env and evb = demo_env and ca = "Some ''4/0Ab''"
      and cb = "Some ''4/0Cd''" and ta = "Some ''ya29''" and tb = "Some ''ya29''"
      and pa = "\<lparr>p_email = Some ''al@x.com'', p_name = Some ''Al''\<rparr>"
      and pb = "\<lparr>p_email = Some ''al@x.com'', p_name = Some ''Al''\<rparr>"
      and e = "''al@x.com''" and n = "''Al''" and st = "[]",
      OF _ _ _ _ _ _ _ _ _ _ _ _ refl refl]
  by (simp add: demo_env_def jwt_sign_def new_ObjectId_def googleVerifyToken_def Let_def
      save_new_def new_UserModel_def)

section \<open>Failures\<close>

text \<open>
  A failure changes nothing in every route but one. When the answer has
  \<^verbatim>\<open>success: false\<close>, the collection after the request is the collection before it,
  except for the account verification on a deployment whose signing secret is unset or
  empty.
\<close>

lemma failure_leaves_store_but_verify:
  assumes "outcome (authRouter ev st rq) = Reply r" and "\<not> success r"
    and "\<not> falsy (JWT_SECRET ev) \<or> (\<forall>b. rq \<noteq> PostAccountVerify b)"
  shows "db (authRouter ev st rq) = st"
proof (cases rq)
  case (PostRegister b)
  with assms show ?thesis
    by (auto simp: register_def fail_def crash_def Let_def
        split: option.splits if_splits sum.splits)
next
  case (PostAccountVerify b)
  with assms show ?thesis
    by (auto simp: verifyAccount_def jwt_sign_def fail_def crash_def Let_def
        split: option.splits if_splits sum.splits)
next
  case (PostSingin b)
  with assms show ?thesis
    by (auto simp: Signin_def fail_def crash_def Let_def
        split: option.splits if_splits sum.splits)
next
  case PostLogout
  with assms show ?thesis by (simp add: Logout_def)
next
  case (PostIsAuth c b)
  with assms show ?thesis by (auto simp: isAuthenticated_def split: gate.splits)
next
  case (PostSendResetToken b)
  with assms show ?thesis
    by (auto simp: sendResetToken_def fail_def crash_def Let_def split: option.splits if_splits)
next
  case (PostVerifyResetToken b)
  with assms show ?thesis
    by (auto simp: verifyResetToken_def fail_def crash_def Let_def
        split: option.splits if_splits)
next
  case (PostResetPassword b)
  with assms show ?thesis
    by (auto simp: resetPassword_def fail_def crash_def Let_def split: option.splits if_splits)
next
  case PostGoogleLogin
  with assms show ?thesis by (simp add: googleLogin_def)
next
  case (PostGoogleCallback code)
  with assms show ?thesis
    by (auto simp: googleVerifyToken_def crash_def Let_def split: option.splits sum.splits)
qed

text \<open>
  C9. The account verification on a deployment whose signing secret is unset: the request
  carries the pending token before its expiry. The controller writes the update, then
  \<^verbatim>\<open>jwt.sign\<close> throws and the \<^verbatim>\<open>catch\<close> answers \<^verbatim>\<open>success: false\<close>, while the document
  is already verified and its token cleared.
\<close>

theorem verifyAccount_fails_after_write:
  "authRouter (demo_env\<lparr>JWT_SECRET := None\<rparr>) [al]
     (PostAccountVerify (Some [''token'' \<mapsto> ''uuid-1'', ''email'' \<mapsto> ''al@x.com''])) =
   \<lparr>outcome = Reply \<lparr>success = False, message = Some ''secretOrPrivateKey must have a value'',
                     cookie = None\<rparr>,
    db = [al\<lparr>isAccountVerified := True, verifyToken := [], verifyTokenExpireAt := 0\<rparr>],
    outbox = []\<rparr>"
  by (simp add: verifyAccount_def demo_env_def al_def jwt_sign_def fail_def Let_def)

text \<open>
  Every route of \<^verbatim>\<open>controllers/Auth.js\<close> answers a request that has a body with a JSON
  body, whatever goes wrong. The Google callback does not when the identity provider
  fails: the error of the token exchange leaves the handler uncaught.
\<close>

lemma auth_flows_reply:
  "rq \<in> {PostRegister (Some b), PostAccountVerify (Some b), PostSingin (Some b), PostLogout,
          PostIsAuth c rb, PostSendResetToken (Some b), PostVerifyResetToken (Some b),
          PostResetPassword (Some b)} \<Longrightarrow>
   \<exists>r. outcome (authRouter ev st rq) = Reply r"
  by (auto simp: register_def verifyAccount_def Signin_def Logout_def isAuthenticated_def
      sendResetToken_def verifyResetToken_def resetPassword_def fail_def Let_def
      split: option.splits sum.splits gate.splits)

lemma oauth_upstream_unhandled:
  "google_token ev code = Inl err \<Longrightarrow> googleVerifyToken ev st code = crash st err"
  by (simp add: googleVerifyToken_def)

text \<open>
  C3. The callback under a failing token exchange: the identity provider answers the
  exchange with status 400, and the request ends with the error unhandled. No
  \<^verbatim>\<open>success: false\<close> body is sent, unlike in the controllers of \<^verbatim>\<open>Auth.js\<close>, which
  catch every error.
\<close>

theorem oauth_upstream_failure_unhandled:
  "authRouter
     (demo_env\<lparr>google_token := \<lambda>c. Inl (UpstreamError ''Request failed with status code 400'')\<rparr>)
     [al] (PostGoogleCallback (Some ''expired-code'')) =
   \<lparr>outcome = Unhandled (UpstreamError ''Request failed with status code 400''), db = [al],
    outbox = []\<rparr>"
  by (simp add: demo_env_def googleVerifyToken_def crash_def)

section \<open>Sessions\<close>

text \<open>
  A token signed for a user id, as sign-in and account verification issue it, passes the
  middleware until it expires, on a request that has a body; and whenever the middleware
  passes a request on it has read the id from a token that verifies. A token signed for a
  profile, as the Google callback issues it, never passes.
\<close>

lemma userAuth_accepts_id_token:
  "\<not> falsy (JWT_SECRET ev) \<Longrightarrow> JWT_SECRET ev' = JWT_SECRET ev \<Longrightarrow>
   Date_now ev' div 1000 < Date_now ev div 1000 + 7 * 24 * 60 * 60 \<Longrightarrow>
   \<exists>tok. jwt_sign (IdClaim i) (JWT_SECRET ev) (Date_now ev) = Inr tok
         \<and> userAuth ev' (Some tok) (Some b) = Next i"
  by (simp add: userAuth_def jwt_sign_def)

lemma userAuth_Next_has_id:
  "userAuth ev c rb = Next i \<Longrightarrow>
   \<exists>t p. c = Some t \<and> jwt_verify t (JWT_SECRET ev) (Date_now ev) = Inr p \<and> claim_id p = Some i"
  by (auto simp: userAuth_def denied_def split: if_splits option.splits sum.splits)

lemma userAuth_rejects_profile_token:
  "jwt_sign (ProfileClaim e n) k now = Inr tok \<Longrightarrow> \<exists>m. userAuth ev' (Some tok) rb = denied m"
  by (auto simp: userAuth_def jwt_sign_def split: if_splits)

text \<open>
  C4. The session that the Google callback issues: the callback registers the user and
  sets the session cookie, whose token carries the email and the name and no id; the
  route \<^verbatim>\<open>/is-auth\<close> answers that cookie, sent back at the same moment with or without
  a body, with \<^verbatim>\<open>Not Authorized Login Again.\<close>
\<close>

theorem oauth_session_fails_is_auth:
  "outcome (googleVerifyToken demo_env [] (Some ''4/0Ab'')) =
     Reply \<lparr>success = True, message = Some ''User registered successfully'',
            cookie = Some (session_cookie
              (Signed (ProfileClaim (Some ''al@x.com'') (Some ''Al'')) 1000 605800 ''s3cret''))\<rparr>
   \<and> (\<forall>rb. authRouter demo_env (db (googleVerifyToken demo_env [] (Some ''4/0Ab'')))
        (PostIsAuth (Some (Signed (ProfileClaim (Some ''al@x.com'') (Some ''Al'')) 1000 605800
           ''s3cret'')) rb) =
       fail (db (googleVerifyToken demo_env [] (Some ''4/0Ab''))) ''Not Authorized Login Again.'')"
  by (simp add: demo_env_def googleVerifyToken_def Let_def save_new_def new_UserModel_def
      new_ObjectId_def jwt_sign_def userAuth_def denied_def fail_def)

end
